theory Spec2Isabelle
  imports Main "HOL-Library.AList"
begin

section \<open>JavaScript string primitives used by the server\<close>

text \<open>
  Strings are modelled as \<^typ>\<open>string\<close>, one \<^typ>\<open>char\<close> per UTF-16 code unit, so
  the model covers the strings whose code units are below 256 (ASCII and Latin-1). The
  functions below are the \<^verbatim>\<open>String.prototype\<close> methods and the regular
  expression replacements that \<^verbatim>\<open>server.ts\<close> calls, restricted to the
  patterns it calls them with.

  The configuration tools and \<^verbatim>\<open>make_request\<close> follow \<^verbatim>\<open>src/server.ts\<close>;
  \<^verbatim>\<open>search\<close> and \<^verbatim>\<open>fetch\<close> exist only in the later copy of the server, which
  has the same helpers and tools (its \<^verbatim>\<open>save_api\<close> copies the auth argument into a
  new auth object, and its \<^verbatim>\<open>sanitizeConfig\<close> assigns the redacted credentials to
  \<^verbatim>\<open>sanitized.auth.credentials\<close> in the same way).
\<close>

definition startsWith :: "string \<Rightarrow> string \<Rightarrow> bool" where
  "startsWith s p = (take (length p) s = p)"

text \<open>Used to state properties of \<^verbatim>\<open>baseUrl\<close>; the server itself does not call it.\<close>

definition endsWith :: "string \<Rightarrow> string \<Rightarrow> bool" where
  "endsWith s p = (length p \<le> length s \<and> drop (length s - length p) s = p)"

fun includesStr :: "string \<Rightarrow> string \<Rightarrow> bool" where
  "includesStr [] q = (q = [])"
| "includesStr (c # cs) q = (startsWith (c # cs) q \<or> includesStr cs q)"

definition upperLetters :: string where
  "upperLetters = ''ABCDEFGHIJKLMNOPQRSTUVWXYZ''"

definition lowerLetters :: string where
  "lowerLetters = ''abcdefghijklmnopqrstuvwxyz''"

definition digits :: string where
  "digits = ''0123456789''"

text \<open>
  \<^verbatim>\<open>toLowerCase\<close> on code units below 256: the letters \<^verbatim>\<open>A\<close> to \<^verbatim>\<open>Z\<close> and the
  Latin-1 capitals U+00C0 to U+00DE, without the multiplication sign U+00D7, move up by
  32; every other code unit stays.
\<close>

definition lowerChar :: "char \<Rightarrow> char" where
  "lowerChar c =
     (let n = (of_char c :: nat)
      in if (65 \<le> n \<and> n \<le> 90) \<or> (192 \<le> n \<and> n \<le> 222 \<and> n \<noteq> 215)
         then char_of (n + 32) else c)"

definition toLowerCase :: "string \<Rightarrow> string" where
  "toLowerCase s = map lowerChar s"

text \<open>\<^verbatim>\<open>s.replace(/\/$/, '')\<close>: one slash is removed, and only at the very end.\<close>

definition stripTrailingSlash :: "string \<Rightarrow> string" where
  "stripTrailingSlash s = (if s \<noteq> [] \<and> last s = CHR ''/'' then butlast s else s)"

text \<open>\<^verbatim>\<open>s.replace(/[^a-zA-Z0-9]/g, '_')\<close>.\<close>

definition isAlnum :: "char \<Rightarrow> bool" where
  "isAlnum c = (c \<in> set (lowerLetters @ upperLetters @ digits))"

definition sanitizeEndpoint :: "string \<Rightarrow> string" where
  "sanitizeEndpoint s = map (\<lambda>c. if isAlnum c then c else CHR ''_'') s"

text \<open>\<^verbatim>\<open>s.replace(/_/g, '/')\<close>.\<close>

definition underscoresToSlashes :: "string \<Rightarrow> string" where
  "underscoresToSlashes s = map (\<lambda>c. if c = CHR ''_'' then CHR ''/'' else c) s"

text \<open>
  \<^verbatim>\<open>s.replace(pat, rep)\<close> with a string pattern: the first occurrence only.
\<close>

fun replaceFirst :: "string \<Rightarrow> string \<Rightarrow> string \<Rightarrow> string" where
  "replaceFirst pat rep [] = (if pat = [] then rep else [])"
| "replaceFirst pat rep (c # cs) =
     (if startsWith (c # cs) pat then rep @ drop (length pat) (c # cs)
      else c # replaceFirst pat rep cs)"

text \<open>\<^verbatim>\<open>s.split(sep)\<close> for a one-character separator; the result is never empty.\<close>

fun split :: "char \<Rightarrow> string \<Rightarrow> string list" where
  "split sep [] = [[]]"
| "split sep (c # cs) =
     (if c = sep then [] # split sep cs
      else (case split sep cs of p # ps \<Rightarrow> (c # p) # ps | [] \<Rightarrow> [[c]]))"

fun join :: "string \<Rightarrow> string list \<Rightarrow> string" where
  "join sep [] = []"
| "join sep [p] = p"
| "join sep (p # q # ps) = p @ sep @ join sep (q # ps)"

text \<open>
  Truthiness of an optional string (\<^verbatim>\<open>if (x)\<close>, \<^verbatim>\<open>!x\<close>, \<^verbatim>\<open>x || d\<close>):
  \<^verbatim>\<open>undefined\<close> and the empty string are falsy.
\<close>

definition truthy :: "string option \<Rightarrow> bool" where
  "truthy x = (case x of None \<Rightarrow> False | Some s \<Rightarrow> s \<noteq> [])"

definition quoted :: "string \<Rightarrow> string" where
  "quoted s = CHR 0x22 # s @ [CHR 0x22]"

definition orElse :: "string option \<Rightarrow> string \<Rightarrow> string" where
  "orElse x d = (case x of None \<Rightarrow> d | Some s \<Rightarrow> if s = [] then d else s)"


section \<open>The history ledger\<close>

record RequestHistory =
  timestamp :: string
  apiName :: string
  \<comment> \<open>the field \<^verbatim>\<open>method\<close>\<close>
  httpMethod :: string
  endpoint :: string
  status :: int
  responseTime :: int
  success :: bool

text \<open>
  \<^verbatim>\<open>addRequestToHistory\<close>: push, then shift once when the length exceeds 100.
  The array is the first argument and the new array is returned.
\<close>

definition addRequestToHistory :: "RequestHistory list \<Rightarrow> RequestHistory \<Rightarrow> RequestHistory list" where
  "addRequestToHistory h r =
     (let h' = h @ [r] in if length h' > 100 then tl h' else h')"



section \<open>Configurations and the store\<close>

datatype AuthType = Bearer | ApiKey | Basic | NoAuth

text \<open>The string values of the \<^verbatim>\<open>type\<close> field: the zod enum of \<^verbatim>\<open>save_api\<close>.\<close>

fun authTypeString :: "AuthType \<Rightarrow> string" where
  "authTypeString Bearer = ''bearer''"
| "authTypeString ApiKey = ''api-key''"
| "authTypeString Basic = ''basic''"
| "authTypeString NoAuth = ''none''"

record Credentials =
  token :: "string option"
  apiKey :: "string option"
  username :: "string option"
  password :: "string option"
  headerName :: "string option"

record AuthObject =
  type :: AuthType
  credentials :: "Credentials option"

type_synonym Headers = "string \<rightharpoonup> string"

text \<open>
  \<^verbatim>\<open>interface ApiConfig\<close>. The \<^verbatim>\<open>auth\<close> field of a JavaScript configuration object
  holds a reference to an auth object, and \<^verbatim>\<open>sanitizeConfig\<close> writes through such a
  reference, so the record is parametric in what the field holds: an address into the
  store of auth objects (\<open>nat ApiConfig\<close>, a live configuration) or the auth
  object itself (\<open>AuthObject ApiConfig\<close>, the configuration as
  \<^verbatim>\<open>JSON.stringify\<close> prints it). \<^verbatim>\<open>timeout\<close> is a JavaScript number; the model
  keeps the integers. Timestamps are the ISO strings of \<^verbatim>\<open>new Date().toISOString()\<close>.
\<close>

record 'a ApiConfig =
  name :: string
  baseUrl :: string
  description :: "string option"
  auth :: "'a option"
  headers :: "Headers option"
  timeout :: "int option"
  createdAt :: string
  lastUsed :: "string option"

text \<open>
  The module state: \<^verbatim>\<open>apiConfigs\<close> (a \<^verbatim>\<open>Map\<close>, which iterates in insertion
  order, hence an association list), the auth objects that configurations refer to, and
  \<^verbatim>\<open>requestHistory\<close>. The activity log of \<^verbatim>\<open>addToLog\<close> is write-only and is left
  out.
\<close>

record ServerState =
  apiConfigs :: "(string \<times> nat ApiConfig) list"
  authObjects :: "AuthObject list"
  requestHistory :: "RequestHistory list"

definition initialState :: ServerState where
  "initialState = \<lparr>apiConfigs = [], authObjects = [], requestHistory = []\<rparr>"

definition deref :: "AuthObject list \<Rightarrow> nat \<Rightarrow> AuthObject option" where
  "deref heap a = (if a < length heap then Some (heap ! a) else None)"

definition getApiConfig :: "ServerState \<Rightarrow> string \<Rightarrow> nat ApiConfig option" where
  "getApiConfig st nm = map_of (apiConfigs st) nm"


section \<open>Header building\<close>

definition base64Alphabet :: string where
  "base64Alphabet = upperLetters @ lowerLetters @ digits @ ''+/''"

definition sextet :: "nat \<Rightarrow> char" where
  "sextet n = base64Alphabet ! (n mod 64)"

text \<open>
  \<^verbatim>\<open>Buffer.from(s)\<close> encodes the string as UTF-8: a code unit below 128 is one byte,
  one from 128 to 255 is two bytes.
\<close>

definition utf8Bytes :: "string \<Rightarrow> nat list" where
  "utf8Bytes s =
     concat (map (\<lambda>c. let n = (of_char c :: nat)
                      in if n < 128 then [n] else [192 + n div 64, 128 + n mod 64]) s)"

text \<open>
  \<^verbatim>\<open>toString('base64')\<close> on bytes: three bytes give four sextets, and a last group
  of one or two bytes is padded with \<^verbatim>\<open>=\<close>.
\<close>

fun base64Bytes :: "nat list \<Rightarrow> string" where
  "base64Bytes (a # b # c # rest) =
     (let n = a * 65536 + b * 256 + c
      in sextet (n div 262144) # sextet (n div 4096) # sextet (n div 64) # sextet n
           # base64Bytes rest)"
| "base64Bytes [a, b] =
     (let n = a * 65536 + b * 256
      in [sextet (n div 262144), sextet (n div 4096), sextet (n div 64), CHR ''=''])"
| "base64Bytes [a] =
     (let n = a * 65536
      in [sextet (n div 262144), sextet (n div 4096), CHR ''='', CHR ''=''])"
| "base64Bytes [] = []"

definition base64 :: "string \<Rightarrow> string" where
  "base64 s = base64Bytes (utf8Bytes s)"

text \<open>Object spread of an optional header record: \<^verbatim>\<open>...undefined\<close> adds nothing.\<close>

definition spread :: "Headers option \<Rightarrow> Headers" where
  "spread h = (case h of None \<Rightarrow> Map.empty | Some m \<Rightarrow> m)"

text \<open>
  The three layers of \<^verbatim>\<open>buildHeaders\<close> before authentication; in a spread, a later
  source overwrites an earlier one on the same key, which is \<^const>\<open>map_add\<close>.
\<close>

abbreviation layeredHeaders :: "Headers option \<Rightarrow> Headers option \<Rightarrow> Headers" where
  "layeredHeaders configHeaders customHeaders \<equiv>
     [''Content-Type'' \<mapsto> ''application/json''] ++ spread configHeaders ++ spread customHeaders"

text \<open>
  \<^verbatim>\<open>headers[key] = value\<close> on the object that the literal created. For every key but
  \<^verbatim>\<open>__proto__\<close> the assignment writes or creates the property. \<^verbatim>\<open>__proto__\<close> is
  written when the object has it as an own property (a spread creates own properties);
  otherwise the assignment reaches the setter inherited from \<^verbatim>\<open>Object.prototype\<close>,
  which ignores a string, and the object gets no property.
\<close>

definition assignProperty :: "Headers \<Rightarrow> string \<Rightarrow> string \<Rightarrow> Headers" where
  "assignProperty hdrs key v =
     (if key = ''__proto__'' \<and> hdrs key = None then hdrs else hdrs(key \<mapsto> v))"

text \<open>The \<^verbatim>\<open>switch\<close> of \<^verbatim>\<open>buildHeaders\<close> on the auth type.\<close>

fun authHeader :: "AuthType \<Rightarrow> Credentials \<Rightarrow> Headers \<Rightarrow> Headers" where
  "authHeader Bearer creds hdrs =
     (case token creds of
        Some t \<Rightarrow>
          if t \<noteq> [] then assignProperty hdrs ''Authorization'' (''Bearer '' @ t) else hdrs
      | None \<Rightarrow> hdrs)"
| "authHeader ApiKey creds hdrs =
     (case (apiKey creds, headerName creds) of
        (Some k, Some hn) \<Rightarrow> if k \<noteq> [] \<and> hn \<noteq> [] then assignProperty hdrs hn k else hdrs
      | _ \<Rightarrow> hdrs)"
| "authHeader Basic creds hdrs =
     (case (username creds, password creds) of
        (Some u, Some p) \<Rightarrow>
          if u \<noteq> [] \<and> p \<noteq> []
          then assignProperty hdrs ''Authorization'' (''Basic '' @ base64 (u @ '':'' @ p))
          else hdrs
      | _ \<Rightarrow> hdrs)"
| "authHeader NoAuth creds hdrs = hdrs"

text \<open>The \<^verbatim>\<open>headerName\<close> that a configuration's credentials hold, read through the reference.\<close>

definition headerName_of :: "AuthObject list \<Rightarrow> nat ApiConfig \<Rightarrow> string option" where
  "headerName_of heap config =
     Option.bind (Option.bind (Option.bind (auth config) (deref heap)) credentials) headerName"

definition buildHeaders :: "AuthObject list \<Rightarrow> nat ApiConfig \<Rightarrow> Headers option \<Rightarrow> Headers" where
  "buildHeaders heap config customHeaders =
     (let hdrs = layeredHeaders (headers config) customHeaders
      in case Option.bind (auth config) (deref heap) of
           None \<Rightarrow> hdrs
         | Some a \<Rightarrow>
             (case credentials a of
                None \<Rightarrow> hdrs
              | Some creds \<Rightarrow> authHeader (type a) creds hdrs))"


section \<open>Redaction\<close>

definition redact :: "string option \<Rightarrow> string option" where
  "redact x = (if truthy x then Some ''[REDACTED]'' else None)"

definition redactedCredentials :: "Credentials \<Rightarrow> Credentials" where
  "redactedCredentials creds =
     \<lparr>token = redact (token creds), apiKey = redact (apiKey creds),
      username = username creds, password = redact (password creds),
      headerName = headerName creds\<rparr>"

text \<open>
  \<^verbatim>\<open>sanitizeConfig\<close>. \<^verbatim>\<open>{ ...config }\<close> copies the fields of the configuration,
  so the copy's \<^verbatim>\<open>auth\<close> is the same reference; the assignment
  \<^verbatim>\<open>sanitized.auth.credentials = {...}\<close> then writes the \<^verbatim>\<open>credentials\<close> field of
  the auth object at that address. The function returns the copy and the store after the
  write. Deleting the keys whose value is \<^verbatim>\<open>undefined\<close> changes nothing in a record
  of options.
\<close>

definition sanitizeConfig :: "AuthObject list \<Rightarrow> nat ApiConfig \<Rightarrow> nat ApiConfig \<times> AuthObject list" where
  "sanitizeConfig heap config =
     (case auth config of
        None \<Rightarrow> (config, heap)
      | Some a \<Rightarrow>
          (case deref heap a of
             None \<Rightarrow> (config, heap)
           | Some obj \<Rightarrow>
               (case credentials obj of
                  None \<Rightarrow> (config, heap)
                | Some creds \<Rightarrow>
                    (config, heap[a := obj\<lparr>credentials := Some (redactedCredentials creds)\<rparr>]))))"

text \<open>What \<^verbatim>\<open>JSON.stringify\<close> prints for a configuration: the auth object is read through the reference.\<close>

definition stringify :: "AuthObject list \<Rightarrow> nat ApiConfig \<Rightarrow> AuthObject ApiConfig" where
  "stringify heap config =
     \<lparr>name = name config, baseUrl = baseUrl config, description = description config,
      auth = Option.bind (auth config) (deref heap), headers = headers config,
      timeout = timeout config, createdAt = createdAt config, lastUsed = lastUsed config\<rparr>"


section \<open>The tools that manage configurations\<close>

datatype ToolError =
    AlreadyExists string
  | InvalidBaseUrl
  | IncompleteAuth AuthType
  | ApiNotFound string

text \<open>
  \<^verbatim>\<open>validateUrl\<close>. Whether \<^verbatim>\<open>new URL(url)\<close> throws is decided by the runtime's URL
  parser, which is the parameter \<open>urlParses\<close>.
\<close>

definition validateUrl :: "(string \<Rightarrow> bool) \<Rightarrow> string \<Rightarrow> bool" where
  "validateUrl urlParses u =
     (if urlParses u then startsWith u ''http://'' \<or> startsWith u ''https://'' else False)"

text \<open>The auth validation of \<^verbatim>\<open>save_api\<close>: the error it throws, if any.\<close>

definition authRequirement :: "AuthObject option \<Rightarrow> ToolError option" where
  "authRequirement authArg =
     (case authArg of
        None \<Rightarrow> None
      | Some a \<Rightarrow>
          (if type a \<noteq> NoAuth then
             (case credentials a of
                None \<Rightarrow> None
              | Some creds \<Rightarrow>
                  (case type a of
                     Bearer \<Rightarrow>
                       if \<not> truthy (token creds) then Some (IncompleteAuth Bearer) else None
                   | ApiKey \<Rightarrow>
                       if \<not> truthy (apiKey creds) \<or> \<not> truthy (headerName creds)
                       then Some (IncompleteAuth ApiKey) else None
                   | Basic \<Rightarrow>
                       if \<not> truthy (username creds) \<or> \<not> truthy (password creds)
                       then Some (IncompleteAuth Basic) else None
                   | NoAuth \<Rightarrow> None))
           else None))"

text \<open>
  \<^verbatim>\<open>save_api\<close>. \<open>now\<close> is \<^verbatim>\<open>new Date().toISOString()\<close>. The auth object of the
  arguments becomes an object of the store, at a fresh address, when
  \<^verbatim>\<open>config.auth = auth\<close> keeps a reference to it. The configuration is stored first;
  the response is then built from \<^verbatim>\<open>sanitizeConfig(config)\<close>.
\<close>

definition save_api ::
  "(string \<Rightarrow> bool) \<Rightarrow> string \<Rightarrow> ServerState \<Rightarrow> string \<Rightarrow> string \<Rightarrow> string option
     \<Rightarrow> AuthObject option \<Rightarrow> Headers option \<Rightarrow> int option
     \<Rightarrow> (ToolError + AuthObject ApiConfig) \<times> ServerState" where
  "save_api urlParses now st nm url descr authArg hdrs tmo =
     (if map_of (apiConfigs st) nm \<noteq> None then (Inl (AlreadyExists nm), st)
      else if \<not> validateUrl urlParses url then (Inl InvalidBaseUrl, st)
      else
        (case authRequirement authArg of
           Some e \<Rightarrow> (Inl e, st)
         | None \<Rightarrow>
             (let heap1 = (case authArg of None \<Rightarrow> authObjects st | Some a \<Rightarrow> authObjects st @ [a]);
                  config = \<lparr>name = nm, baseUrl = stripTrailingSlash url,
                            description = (if truthy descr then descr else None),
                            auth = (case authArg of None \<Rightarrow> None
                                    | Some a \<Rightarrow> Some (length (authObjects st))),
                            headers = hdrs,
                            timeout = Some (case tmo of None \<Rightarrow> 30000 | Some t \<Rightarrow> t),
                            createdAt = now, lastUsed = None\<rparr>;
                  configs1 = AList.update nm config (apiConfigs st);
                  (sanitized, heap2) = sanitizeConfig heap1 config
              in (Inr (stringify heap2 sanitized),
                  st\<lparr>apiConfigs := configs1, authObjects := heap2\<rparr>))))"

definition get_api :: "ServerState \<Rightarrow> string \<Rightarrow> (ToolError + AuthObject ApiConfig) \<times> ServerState" where
  "get_api st nm =
     (case getApiConfig st nm of
        None \<Rightarrow> (Inl (ApiNotFound nm), st)
      | Some config \<Rightarrow>
          (let (sanitized, heap') = sanitizeConfig (authObjects st) config
           in (Inr (stringify heap' sanitized), st\<lparr>authObjects := heap'\<rparr>)))"

definition delete_api :: "ServerState \<Rightarrow> string \<Rightarrow> (ToolError + unit) \<times> ServerState" where
  "delete_api st nm =
     (case getApiConfig st nm of
        None \<Rightarrow> (Inl (ApiNotFound nm), st)
      | Some config \<Rightarrow> (Inr (), st\<lparr>apiConfigs := AList.delete nm (apiConfigs st)\<rparr>))"



section \<open>Request execution\<close>

text \<open>
  The outbound call. \<^verbatim>\<open>await fetch(url, options)\<close> either resolves with a response or
  rejects with an error that has a \<^verbatim>\<open>name\<close> and a \<^verbatim>\<open>message\<close>; the abort that
  the timeout timer triggers rejects with the name \<^verbatim>\<open>AbortError\<close>. Which of these
  happens is the network's answer and is an argument of the model, as are the clock
  readings. Response header names are those of a \<^verbatim>\<open>Headers\<close> object, in lower case.
\<close>

record Response =
  responseStatus :: int
  statusText :: string
  responseHeaders :: "(string \<times> string) list"
  bodyText :: string

datatype FetchOutcome = Resolved Response | Rejected string string

datatype ParsedBody = JsonBody string | TextBody string

text \<open>\<^verbatim>\<open>response.ok\<close>, as the Fetch standard defines it.\<close>

definition ok :: "Response \<Rightarrow> bool" where
  "ok response = (200 \<le> responseStatus response \<and> responseStatus response \<le> 299)"

text \<open>
  \<^verbatim>\<open>parseResponse\<close>. \<open>jsonSyntaxError\<close> is the runtime's JSON parser: \<open>None\<close>
  when it accepts the text, otherwise the message of the \<^verbatim>\<open>SyntaxError\<close> it throws.
  \<^verbatim>\<open>response.json()\<close> rejects with that error on a text that is not JSON; only the
  last branch catches it and falls back to the text. The result is the thrown error
  (name and message) or the parsed body.
\<close>

definition parseResponse ::
  "(string \<Rightarrow> string option) \<Rightarrow> Response \<Rightarrow> (string \<times> string) + ParsedBody" where
  "parseResponse jsonSyntaxError response =
     (let contentType = orElse (map_of (responseHeaders response) ''content-type'') []
      in if includesStr contentType ''application/json'' then
           (case jsonSyntaxError (bodyText response) of
              None \<Rightarrow> Inr (JsonBody (bodyText response))
            | Some message \<Rightarrow> Inl (''SyntaxError'', message))
         else if includesStr contentType ''text/'' then Inr (TextBody (bodyText response))
         else
           (case jsonSyntaxError (bodyText response) of
              None \<Rightarrow> Inr (JsonBody (bodyText response))
            | Some message \<Rightarrow> Inr (TextBody (bodyText response))))"

datatype RequestResult =
    RequestOk int string "(string \<times> string) list" ParsedBody int
  | RequestTimeout int
  | RequestFailed string

text \<open>
  The \<^verbatim>\<open>catch\<close> block of \<^verbatim>\<open>make_request\<close>: an error named \<^verbatim>\<open>AbortError\<close> is
  reported as a timeout with the elapsed milliseconds, any other error with its message.
\<close>

definition requestError :: "int \<Rightarrow> string \<times> string \<Rightarrow> RequestResult" where
  "requestError elapsed err =
     (if fst err = ''AbortError'' then RequestTimeout elapsed else RequestFailed (snd err))"

text \<open>
  The elapsed milliseconds that a result reports: \<^verbatim>\<open>responseTime\<close> in the JSON of a
  completed call, the number in \<^verbatim>\<open>Request timeout after ...ms\<close>; the text
  \<^verbatim>\<open>Request failed: ...\<close> holds the error message only.
\<close>

fun elapsedReported :: "RequestResult \<Rightarrow> int option" where
  "elapsedReported (RequestOk st stText hdrs body elapsed) = Some elapsed"
| "elapsedReported (RequestTimeout elapsed) = Some elapsed"
| "elapsedReported (RequestFailed message) = None"

text \<open>
  \<^verbatim>\<open>make_request\<close>. \<open>startTime\<close> and \<open>endTime\<close> are the two readings of
  \<^verbatim>\<open>Date.now()\<close> (on entry, and after the response is parsed or in the \<^verbatim>\<open>catch\<close>
  block), \<open>now\<close> is \<^verbatim>\<open>new Date().toISOString()\<close> at completion. The URL, the
  headers of \<^const>\<open>buildHeaders\<close> and the body only go into the outbound call, whose
  answer is \<open>outcome\<close>. \<^verbatim>\<open>config.lastUsed = ...\<close> writes the configuration object
  that the map holds under \<open>apiName\<close>.
\<close>

definition make_request ::
  "(string \<Rightarrow> string option) \<Rightarrow> int \<Rightarrow> int \<Rightarrow> string \<Rightarrow> FetchOutcome \<Rightarrow> ServerState
     \<Rightarrow> string \<Rightarrow> string \<Rightarrow> string \<Rightarrow> RequestResult \<times> ServerState" where
  "make_request jsonSyntaxError startTime endTime now outcome st apiNm endpt meth =
     (case getApiConfig st apiNm of
        None \<Rightarrow>
          (requestError (endTime - startTime)
             (''Error'', ''API '' @ quoted apiNm @ '' not found. Use save_api first.''), st)
      | Some config \<Rightarrow>
          (case outcome of
             Rejected errName errMessage \<Rightarrow>
               (requestError (endTime - startTime) (errName, errMessage), st)
           | Resolved response \<Rightarrow>
               (case parseResponse jsonSyntaxError response of
                  Inl err \<Rightarrow> (requestError (endTime - startTime) err, st)
                | Inr responseBody \<Rightarrow>
                    (let elapsed = endTime - startTime;
                         entry = \<lparr>timestamp = now, apiName = apiNm, httpMethod = meth,
                                  endpoint = endpt, status = responseStatus response,
                                  responseTime = elapsed, success = ok response\<rparr>
                     in (RequestOk (responseStatus response) (statusText response)
                           (responseHeaders response) responseBody elapsed,
                         st\<lparr>apiConfigs :=
                               AList.update apiNm (config\<lparr>lastUsed := Some now\<rparr>) (apiConfigs st),
                            requestHistory :=
                               addRequestToHistory (requestHistory st) entry\<rparr>)))))"


section \<open>Search\<close>

record SearchResult =
  resultId :: string
  title :: string
  url :: string

definition matchesRequest :: "string \<Rightarrow> RequestHistory \<Rightarrow> bool" where
  "matchesRequest queryLower r =
     (includesStr (toLowerCase (endpoint r)) queryLower
      \<or> includesStr (toLowerCase (httpMethod r)) queryLower)"

text \<open>
  The score contributions of one configuration, in the order the loop body adds them,
  each with the match reason it pushes.
\<close>

definition matchReasons ::
  "ServerState \<Rightarrow> string \<Rightarrow> string \<Rightarrow> nat ApiConfig \<Rightarrow> (nat \<times> string) list" where
  "matchReasons st queryLower nm config =
     (if includesStr (toLowerCase nm) queryLower then [(10, ''name'')] else [])
     @ (case description config of
          Some d \<Rightarrow> if includesStr (toLowerCase d) queryLower then [(8, ''description'')] else []
        | None \<Rightarrow> [])
     @ (if includesStr (toLowerCase (baseUrl config)) queryLower then [(6, ''baseUrl'')] else [])
     @ (case Option.bind (auth config) (deref (authObjects st)) of
          Some a \<Rightarrow>
            if includesStr (toLowerCase (authTypeString (type a))) queryLower
            then [(4, ''auth'')] else []
        | None \<Rightarrow> [])
     @ (if list_ex (matchesRequest queryLower)
             (filter (\<lambda>r. apiName r = nm) (requestHistory st))
        then [(2, ''endpoints'')] else [])"

definition relevanceScore :: "ServerState \<Rightarrow> string \<Rightarrow> string \<Rightarrow> nat ApiConfig \<Rightarrow> nat" where
  "relevanceScore st queryLower nm config = sum_list (map fst (matchReasons st queryLower nm config))"

definition apiResult :: "ServerState \<Rightarrow> string \<Rightarrow> string \<Rightarrow> nat ApiConfig \<Rightarrow> SearchResult" where
  "apiResult st queryLower nm config =
     \<lparr>resultId = ''api-'' @ nm,
      title = nm @ '' API - '' @ orElse (description config) ''API Configuration''
              @ '' ('' @ join '', '' (map snd (matchReasons st queryLower nm config)) @ '')'',
      url = baseUrl config @ ''/info''\<rparr>"

text \<open>The first loop of \<^verbatim>\<open>search\<close>, over the entries of \<^verbatim>\<open>apiConfigs\<close>.\<close>

definition apiResults :: "ServerState \<Rightarrow> string \<Rightarrow> SearchResult list" where
  "apiResults st queryLower =
     concat (map (\<lambda>(nm, config).
                    if relevanceScore st queryLower nm config > 0
                    then [apiResult st queryLower nm config] else [])
                 (apiConfigs st))"

definition endpointResult :: "ServerState \<Rightarrow> RequestHistory \<Rightarrow> SearchResult" where
  "endpointResult st r =
     \<lparr>resultId = ''endpoint-'' @ apiName r @ ''-'' @ sanitizeEndpoint (endpoint r),
      title = httpMethod r @ '' '' @ endpoint r @ '' - '' @ apiName r @ '' API'',
      url = orElse (map_option baseUrl (map_of (apiConfigs st) (apiName r))) ''unknown''
            @ endpoint r\<rparr>"

text \<open>
  The second loop, over \<^verbatim>\<open>requestHistory\<close>; \<open>seen\<close> is the set
  \<^verbatim>\<open>uniqueEndpoints\<close> of the keys \<^verbatim>\<open>apiName-endpoint\<close>.
\<close>

fun endpointResults :: "ServerState \<Rightarrow> string \<Rightarrow> string list \<Rightarrow> RequestHistory list \<Rightarrow> SearchResult list" where
  "endpointResults st queryLower seen [] = []"
| "endpointResults st queryLower seen (r # rs) =
     (if matchesRequest queryLower r then
        (let endpointKey = apiName r @ ''-'' @ endpoint r
         in if endpointKey \<in> set seen then endpointResults st queryLower seen rs
            else endpointResult st r # endpointResults st queryLower (endpointKey # seen) rs)
      else endpointResults st queryLower seen rs)"

definition searchResults :: "ServerState \<Rightarrow> string \<Rightarrow> SearchResult list" where
  "searchResults st query =
     (let queryLower = toLowerCase query
      in apiResults st queryLower @ endpointResults st queryLower [] (requestHistory st))"

text \<open>
  \<^verbatim>\<open>searchResults.sort((a, b) => b.title.length - a.title.length)\<close>: the sort is
  stable, so results with titles of equal length keep their order.
\<close>

definition sortByTitleLength :: "SearchResult list \<Rightarrow> SearchResult list" where
  "sortByTitleLength rs = sort_key (\<lambda>r. - int (length (title r))) rs"

definition search :: "ServerState \<Rightarrow> string \<Rightarrow> SearchResult list" where
  "search st query = take 10 (sortByTitleLength (searchResults st query))"


section \<open>Fetch\<close>

text \<open>
  The documents of \<^verbatim>\<open>fetch\<close>, with the data that its text and metadata are printed
  from. The rounded percentages and averages (\<^verbatim>\<open>Math.round\<close> of a floating-point
  quotient) are not modelled; the counts and the records they are computed from are.
\<close>

record ApiDocument =
  apiDocId :: string
  apiDocTitle :: string
  apiDocUrl :: string
  apiDocConfig :: "AuthObject ApiConfig"
  apiDocRequests :: "RequestHistory list"
  apiDocSuccessful :: nat

record EndpointDocument =
  endpointDocId :: string
  endpointDocTitle :: string
  endpointDocUrl :: string
  endpointDocEndpoint :: string
  endpointDocApiName :: string
  endpointDocMethods :: "string list"
  endpointDocRequestCount :: nat
  endpointDocSuccessful :: nat
  endpointDocRecent :: "RequestHistory list"
  endpointDocAuthType :: string

datatype Document = ApiDoc ApiDocument | EndpointDoc EndpointDocument

datatype FetchError =
    InvalidEndpointId string
  | EndpointApiNotFound string
  | DocumentNotFound string

text \<open>\<^verbatim>\<open>[...new Set(xs)]\<close>: the distinct elements in order of first occurrence.\<close>

fun uniqueInOrder :: "'a list \<Rightarrow> 'a list" where
  "uniqueInOrder [] = []"
| "uniqueInOrder (x # xs) = x # filter (\<lambda>y. y \<noteq> x) (uniqueInOrder xs)"

text \<open>\<^verbatim>\<open>xs.slice(-n)\<close>.\<close>

definition sliceLast :: "nat \<Rightarrow> 'a list \<Rightarrow> 'a list" where
  "sliceLast n xs = drop (length xs - n) xs"

definition apiDocument :: "ServerState \<Rightarrow> string \<Rightarrow> string \<Rightarrow> nat ApiConfig \<Rightarrow> ApiDocument" where
  "apiDocument st ident apiNm config =
     (let stats = filter (\<lambda>r. apiName r = apiNm) (requestHistory st)
      in \<lparr>apiDocId = ident, apiDocTitle = apiNm @ '' API Configuration'',
          apiDocUrl = baseUrl config @ ''/info'',
          apiDocConfig = stringify (authObjects st) config,
          apiDocRequests = stats,
          apiDocSuccessful = length (filter success stats)\<rparr>)"

definition endpointDocument ::
  "ServerState \<Rightarrow> string \<Rightarrow> string \<Rightarrow> nat ApiConfig \<Rightarrow> RequestHistory \<Rightarrow> RequestHistory list
     \<Rightarrow> EndpointDocument" where
  "endpointDocument st ident apiNm config firstRequest endpointHistory =
     \<lparr>endpointDocId = ident,
      endpointDocTitle = endpoint firstRequest @ '' - '' @ apiNm @ '' API Endpoint'',
      endpointDocUrl = baseUrl config @ endpoint firstRequest,
      endpointDocEndpoint = endpoint firstRequest,
      endpointDocApiName = apiNm,
      endpointDocMethods = uniqueInOrder (map httpMethod endpointHistory),
      endpointDocRequestCount = length endpointHistory,
      endpointDocSuccessful = length (filter success endpointHistory),
      endpointDocRecent = sliceLast 5 endpointHistory,
      endpointDocAuthType =
        (case Option.bind (auth config) (deref (authObjects st)) of
           Some a \<Rightarrow> authTypeString (type a) | None \<Rightarrow> ''none'')\<rparr>"

text \<open>
  \<^verbatim>\<open>fetch\<close>. The two \<^verbatim>\<open>if\<close> blocks run one after the other on the same
  \<^verbatim>\<open>document\<close> variable; every \<^verbatim>\<open>throw\<close> ends in the error document, whose cause
  is the \<^typ>\<open>FetchError\<close>.
\<close>

definition fetch :: "ServerState \<Rightarrow> string \<Rightarrow> FetchError + Document" where
  "fetch st ident =
     (let document1 =
            (if startsWith ident ''api-'' then
               (let apiNm = replaceFirst ''api-'' [] ident
                in map_option (\<lambda>config. ApiDoc (apiDocument st ident apiNm config))
                     (getApiConfig st apiNm))
             else None);
          found = (\<lambda>document. case document of
                                None \<Rightarrow> Inl (DocumentNotFound ident)
                              | Some d \<Rightarrow> Inr d)
      in if startsWith ident ''endpoint-'' then
           (case split CHR ''-'' (replaceFirst ''endpoint-'' [] ident) of
              [] \<Rightarrow> Inl (InvalidEndpointId ident)
            | apiNm # rest \<Rightarrow>
                if apiNm = [] then Inl (InvalidEndpointId ident)
                else
                  (let endpointPart = underscoresToSlashes (join ''-'' rest)
                   in case getApiConfig st apiNm of
                        None \<Rightarrow> Inl (EndpointApiNotFound apiNm)
                      | Some config \<Rightarrow>
                          (case filter (\<lambda>r. apiName r = apiNm
                                            \<and> sanitizeEndpoint (endpoint r) = endpointPart)
                                  (requestHistory st) of
                             [] \<Rightarrow> found document1
                           | firstRequest # others \<Rightarrow>
                               Inr (EndpointDoc (endpointDocument st ident apiNm config
                                      firstRequest (firstRequest # others))))))
         else found document1)"


section \<open>Example runs\<close>

text \<open>
  Stand-ins for the runtime's parsers on the inputs of the examples: the URLs listed are
  absolute URLs that \<^verbatim>\<open>new URL\<close> accepts (the last one has the path \<^verbatim>\<open>//\<close>), and
  \<^verbatim>\<open>JSON.parse\<close> accepts \<^verbatim>\<open>{}\<close> and throws on the empty text (the stand-in is
  only applied to these two texts).
\<close>

definition exampleUrlParses :: "string \<Rightarrow> bool" where
  "exampleUrlParses u =
     (u \<in> set [''https://jsonplaceholder.typicode.com'', ''https://api.github.com'',
               ''https://api.example.com/'', ''https://api.example.com//''])"

definition exampleJsonSyntaxError :: "string \<Rightarrow> string option" where
  "exampleJsonSyntaxError s = (if s = ''{}'' then None else Some ''Unexpected end of JSON input'')"

definition noCredentials :: Credentials where
  "noCredentials =
     \<lparr>token = None, apiKey = None, username = None, password = None, headerName = None\<rparr>"

definition bearerAuth :: AuthObject where
  "bearerAuth = \<lparr>type = Bearer, credentials = Some (noCredentials\<lparr>token := Some ''ghp_secret''\<rparr>)\<rparr>"

definition apiKeyAuth :: AuthObject where
  "apiKeyAuth =
     \<lparr>type = ApiKey,
      credentials = Some (noCredentials\<lparr>apiKey := Some ''k-123'', headerName := Some ''X-API-Key''\<rparr>)\<rparr>"

definition protoKeyAuth :: AuthObject where
  "protoKeyAuth =
     \<lparr>type = ApiKey,
      credentials = Some (noCredentials\<lparr>apiKey := Some ''k-123'', headerName := Some ''__proto__''\<rparr>)\<rparr>"

definition basicAuth :: AuthObject where
  "basicAuth =
     \<lparr>type = Basic,
      credentials = Some (noCredentials\<lparr>username := Some ''user'', password := Some ''pass''\<rparr>)\<rparr>"

text \<open>
  A configuration whose default headers already set the two headers that authentication
  writes, and per-call headers that set them again.
\<close>

definition headerConfig :: "nat ApiConfig" where
  "headerConfig =
     \<lparr>name = ''svc'', baseUrl = ''https://api.example.com'', description = None,
      auth = Some 0,
      headers = Some [''Authorization'' \<mapsto> ''from-defaults'', ''X-API-Key'' \<mapsto> ''from-defaults'',
                      ''Accept'' \<mapsto> ''text/plain''],
      timeout = Some 30000, createdAt = ''2024-01-01T00:00:00.000Z'', lastUsed = None\<rparr>"

definition callHeaders :: "Headers option" where
  "callHeaders =
     Some [''Authorization'' \<mapsto> ''from-call'', ''X-API-Key'' \<mapsto> ''from-call'',
           ''Accept'' \<mapsto> ''application/xml'']"

definition okResponse :: Response where
  "okResponse =
     \<lparr>responseStatus = 200, statusText = ''OK'',
      responseHeaders = [(''content-type'', ''application/json; charset=utf-8'')],
      bodyText = ''{}''\<rparr>"

text \<open>A \<^verbatim>\<open>204 No Content\<close> answer that still declares a JSON content type.\<close>

definition noContentResponse :: Response where
  "noContentResponse =
     \<lparr>responseStatus = 204, statusText = ''No Content'',
      responseHeaders = [(''content-type'', ''application/json'')],
      bodyText = []\<rparr>"

text \<open>The end-to-end example: save \<^verbatim>\<open>jp\<close>, then \<^verbatim>\<open>GET /posts/1\<close> answers 200.\<close>

definition afterSaveJp :: ServerState where
  "afterSaveJp =
     snd (save_api exampleUrlParses ''2024-01-01T00:00:00.000Z'' initialState ''jp''
            ''https://jsonplaceholder.typicode.com'' None
            (Some \<lparr>type = NoAuth, credentials = None\<rparr>) None None)"

definition afterGetPost :: ServerState where
  "afterGetPost =
     snd (make_request exampleJsonSyntaxError 1000 1250 ''2024-01-01T00:00:01.000Z''
            (Resolved okResponse) afterSaveJp ''jp'' ''/posts/1'' ''GET'')"

text \<open>A configuration with a bearer token, used once and then deleted.\<close>

definition afterSaveGithub :: ServerState where
  "afterSaveGithub =
     snd (save_api exampleUrlParses ''2024-01-01T00:00:00.000Z'' initialState ''github''
            ''https://api.github.com'' (Some ''GitHub REST API v3'') (Some bearerAuth) None None)"

definition afterGithubRequest :: ServerState where
  "afterGithubRequest =
     snd (make_request exampleJsonSyntaxError 1000 1250 ''2024-01-01T00:00:01.000Z''
            (Resolved okResponse) afterSaveGithub ''github'' ''/user/repos'' ''GET'')"

text \<open>A configuration whose api key is to be sent in a header named \<^verbatim>\<open>__proto__\<close>.\<close>

definition afterSaveProto :: ServerState where
  "afterSaveProto =
     snd (save_api exampleUrlParses ''2024-01-01T00:00:00.000Z'' initialState ''svc''
            ''https://api.example.com/'' None (Some protoKeyAuth) None None)"

definition afterDeleteGithub :: ServerState where
  "afterDeleteGithub = snd (delete_api afterGithubRequest ''github'')"

definition exampleEntry :: "string \<Rightarrow> RequestHistory" where
  "exampleEntry ep =
     \<lparr>timestamp = ''2024-01-01T00:00:01.000Z'', apiName = ''jp'', httpMethod = ''GET'',
      endpoint = ep, status = 200, responseTime = 250, success = True\<rparr>"


section \<open>Unfolding and the example runs, evaluated\<close>

lemmas example_defs = exampleUrlParses_def exampleJsonSyntaxError_def noCredentials_def bearerAuth_def
  apiKeyAuth_def protoKeyAuth_def basicAuth_def okResponse_def noContentResponse_def exampleEntry_def

lemmas op_defs = save_api_def make_request_def delete_api_def get_api_def getApiConfig_def
  validateUrl_def startsWith_def authRequirement_def stripTrailingSlash_def truthy_def
  sanitizeConfig_def stringify_def initialState_def deref_def parseResponse_def orElse_def
  addRequestToHistory_def ok_def redactedCredentials_def redact_def requestError_def


lemma startsWith_append: "startsWith (p @ s) p"
  by (simp add: startsWith_def)

lemma replaceFirst_prefix: "p \<noteq> [] \<Longrightarrow> replaceFirst p r (p @ s) = r @ s"
  by (cases p) (simp_all add: startsWith_def)

lemma api_id_not_endpoint: "\<not> startsWith (''api-'' @ n) ''endpoint-''"
  by (simp add: startsWith_def)

text \<open>The states of the example runs, computed from the operations.\<close>

lemma afterSaveJp_eq: "afterSaveJp =
  \<lparr>apiConfigs = [(''jp'', \<lparr>name = ''jp'', baseUrl = ''https://jsonplaceholder.typicode.com'',
      description = None, auth = Some 0, headers = None, timeout = Some 30000,
      createdAt = ''2024-01-01T00:00:00.000Z'', lastUsed = None\<rparr>)],
   authObjects = [\<lparr>type = NoAuth, credentials = None\<rparr>], requestHistory = []\<rparr>"
  by (simp add: afterSaveJp_def op_defs example_defs Let_def)

lemma afterGetPost_eq: "afterGetPost =
  \<lparr>apiConfigs = [(''jp'', \<lparr>name = ''jp'', baseUrl = ''https://jsonplaceholder.typicode.com'',
      description = None, auth = Some 0, headers = None, timeout = Some 30000,
      createdAt = ''2024-01-01T00:00:00.000Z'', lastUsed = Some ''2024-01-01T00:00:01.000Z''\<rparr>)],
   authObjects = [\<lparr>type = NoAuth, credentials = None\<rparr>],
   requestHistory = [\<lparr>timestamp = ''2024-01-01T00:00:01.000Z'', apiName = ''jp'',
          httpMethod = ''GET'', endpoint = ''/posts/1'', status = 200,
          responseTime = 250, success = True\<rparr>]\<rparr>"
  by (simp add: afterGetPost_def afterSaveJp_eq op_defs example_defs Let_def)

lemma afterSaveGithub_eq: "afterSaveGithub =
  \<lparr>apiConfigs = [(''github'', \<lparr>name = ''github'', baseUrl = ''https://api.github.com'',
         description = Some ''GitHub REST API v3'', auth = Some 0,
         headers = None, timeout = Some 30000,
         createdAt = ''2024-01-01T00:00:00.000Z'', lastUsed = None\<rparr>)],
    authObjects = [\<lparr>type = Bearer,
          credentials = Some \<lparr>token = Some ''[REDACTED]'', apiKey = None, username = None,
                password = None, headerName = None\<rparr>\<rparr>],
    requestHistory = []\<rparr>"
  by (simp add: afterSaveGithub_def op_defs example_defs Let_def)

lemma afterGithubRequest_eq: "afterGithubRequest =
  \<lparr>apiConfigs = [(''github'', \<lparr>name = ''github'', baseUrl = ''https://api.github.com'',
         description = Some ''GitHub REST API v3'', auth = Some 0,
         headers = None, timeout = Some 30000,
         createdAt = ''2024-01-01T00:00:00.000Z'', lastUsed = Some ''2024-01-01T00:00:01.000Z''\<rparr>)],
    authObjects = [\<lparr>type = Bearer,
          credentials = Some \<lparr>token = Some ''[REDACTED]'', apiKey = None, username = None,
                password = None, headerName = None\<rparr>\<rparr>],
    requestHistory = [\<lparr>timestamp = ''2024-01-01T00:00:01.000Z'', apiName = ''github'',
          httpMethod = ''GET'', endpoint = ''/user/repos'', status = 200,
          responseTime = 250, success = True\<rparr>]\<rparr>"
  by (simp add: afterGithubRequest_def afterSaveGithub_eq op_defs example_defs Let_def)

lemma afterDeleteGithub_eq: "afterDeleteGithub =
  \<lparr>apiConfigs = [],
    authObjects = [\<lparr>type = Bearer,
          credentials = Some \<lparr>token = Some ''[REDACTED]'', apiKey = None, username = None,
                password = None, headerName = None\<rparr>\<rparr>],
    requestHistory = [\<lparr>timestamp = ''2024-01-01T00:00:01.000Z'', apiName = ''github'',
          httpMethod = ''GET'', endpoint = ''/user/repos'', status = 200,
          responseTime = 250, success = True\<rparr>]\<rparr>"
  by (simp add: afterDeleteGithub_def afterGithubRequest_eq delete_api_def getApiConfig_def)


section \<open>Ledger capacity\<close>

lemma addRequestToHistory_bounded:
  "length h \<le> 100 \<Longrightarrow> length (addRequestToHistory h r) \<le> 100"
  by (simp add: addRequestToHistory_def Let_def)

text \<open>
  The ledger starts empty and changes only through \<^const>\<open>addRequestToHistory\<close>, so
  every ledger the server can hold is within the bound.
\<close>

lemma ledger_reachable_bounded:
  "length (foldl addRequestToHistory [] rs) \<le> 100"
proof (induction rs rule: rev_induct)
  case Nil
  show ?case by simp
next
  case (snoc r rs)
  then show ?case by (simp add: addRequestToHistory_bounded)
qed

text \<open>
  C5. Ledger invariant: an insertion into a ledger of at most 100 records leaves at
  most 100 records; below capacity the record is appended and nothing else changes; at
  capacity the oldest record is dropped, the others keep their order and the new record
  is last.
\<close>

theorem ledger_fifo_capacity:
  assumes "length h \<le> 100"
  shows "length (addRequestToHistory h r) \<le> 100
       \<and> last (addRequestToHistory h r) = r
       \<and> (length h < 100 \<longrightarrow> addRequestToHistory h r = h @ [r])
       \<and> (length h = 100 \<longrightarrow> addRequestToHistory h r = tl h @ [r])"
proof -
  have bound: "length (addRequestToHistory h r) \<le> 100"
    using assms by (rule addRequestToHistory_bounded)
  have below: "length h < 100 \<longrightarrow> addRequestToHistory h r = h @ [r]"
    by (simp add: addRequestToHistory_def Let_def)
  have full: "length h = 100 \<longrightarrow> addRequestToHistory h r = tl h @ [r]"
  proof
    assume len: "length h = 100"
    then have "h \<noteq> []" by auto
    then show "addRequestToHistory h r = tl h @ [r]"
      using len by (simp add: addRequestToHistory_def Let_def)
  qed
  have "last (addRequestToHistory h r) = r"
  proof (cases "length h = 100")
    case True
    with full show ?thesis by simp
  next
    case False
    with assms below show ?thesis by simp
  qed
  with bound below full show ?thesis by simp
qed

theorem ledger_fifo_capacity_witness:
  "length (replicate 100 (exampleEntry ''/a'')) \<le> 100
   \<and> length (replicate 100 (exampleEntry ''/a'')) = 100
   \<and> addRequestToHistory (replicate 100 (exampleEntry ''/a'')) (exampleEntry ''/b'')
       = replicate 99 (exampleEntry ''/a'') @ [exampleEntry ''/b'']
   \<and> length ([] :: RequestHistory list) < 100
   \<and> addRequestToHistory [] (exampleEntry ''/b'') = [exampleEntry ''/b'']"
  using ledger_fifo_capacity [of "replicate 100 (exampleEntry ''/a'')" "exampleEntry ''/b''"]
        ledger_fifo_capacity [of "[]" "exampleEntry ''/b''"]
  by simp


section \<open>Fetching the document of a configuration\<close>

text \<open>
  C9. For every name \<open>n\<close> and every state in which no configuration is stored under
  \<open>n\<close>, whatever the ledger holds, \<^verbatim>\<open>fetch\<close> of the identifier \<^verbatim>\<open>api-\<close>\<open>n\<close>
  ends in the error document \<^verbatim>\<open>Document with ID ... not found\<close>.
\<close>

theorem fetch_api_deleted_not_found:
  assumes "getApiConfig st n = None"
  shows "fetch st (''api-'' @ n) = Inl (DocumentNotFound (''api-'' @ n))"
proof -
  have name: "replaceFirst ''api-'' [] (''api-'' @ n) = n"
    using replaceFirst_prefix [of "''api-''" "[]" n] by simp
  have pre: "startsWith (''api-'' @ n) ''api-''"
    by (rule startsWith_append)
  show ?thesis
    unfolding fetch_def Let_def
    using assms name pre api_id_not_endpoint [of n]
    by simp
qed

text \<open>
  The hypothesis holds after a saved configuration is deleted, while its request is still
  in the ledger.
\<close>

theorem fetch_api_deleted_not_found_witness:
  "getApiConfig afterGithubRequest ''github'' \<noteq> None
   \<and> getApiConfig afterDeleteGithub ''github'' = None
   \<and> filter (\<lambda>r. apiName r = ''github'') (requestHistory afterDeleteGithub) \<noteq> []
   \<and> fetch afterDeleteGithub ''api-github'' = Inl (DocumentNotFound ''api-github'')"
proof -
  have gone: "getApiConfig afterDeleteGithub ''github'' = None"
    by (simp add: afterDeleteGithub_eq getApiConfig_def)
  have "fetch afterDeleteGithub (''api-'' @ ''github'') = Inl (DocumentNotFound (''api-'' @ ''github''))"
    using gone by (rule fetch_api_deleted_not_found)
  then show ?thesis
    using gone by (simp add: afterDeleteGithub_eq afterGithubRequest_eq getApiConfig_def)
qed



section \<open>Searching with the empty query\<close>







text \<open>
  The example of the specification: after \<^verbatim>\<open>GET /posts/1\<close> on \<^verbatim>\<open>jp\<close>, the empty
  query returns the configuration and the endpoint.
\<close>

lemmas search_defs = search_def searchResults_def apiResults_def apiResult_def relevanceScore_def
  matchReasons_def matchesRequest_def endpointResult_def sortByTitleLength_def toLowerCase_def
  lowerChar_def upperLetters_def lowerLetters_def digits_def sanitizeEndpoint_def isAlnum_def
  startsWith_def orElse_def deref_def



section \<open>Order of the header layers\<close>

lemma base64_user_pass: "base64 ''user:pass'' = ''dXNlcjpwYXNz''"
  by (simp add: base64_def utf8Bytes_def sextet_def base64Alphabet_def upperLetters_def
        lowerLetters_def digits_def)

text \<open>The three layers, key by key: a later layer wins.\<close>

lemma layeredHeaders_lookup:
  "layeredHeaders configHeaders customHeaders key
     = (case spread customHeaders key of
          Some v \<Rightarrow> Some v
        | None \<Rightarrow>
            (case spread configHeaders key of
               Some v \<Rightarrow> Some v
             | None \<Rightarrow> if key = ''Content-Type'' then Some ''application/json'' else None))"
  by (simp add: map_add_def split: option.splits)

lemma assignProperty_written:
  "key \<noteq> ''__proto__'' \<or> hdrs key \<noteq> None \<Longrightarrow> assignProperty hdrs key v = hdrs(key \<mapsto> v)"
  by (auto simp: assignProperty_def)

lemma assignProperty_ignored:
  "hdrs ''__proto__'' = None \<Longrightarrow> assignProperty hdrs ''__proto__'' v = hdrs"
  by (simp add: assignProperty_def)

text \<open>
  Without an auth object, without credentials or with the type \<^verbatim>\<open>none\<close> the result of
  \<^verbatim>\<open>buildHeaders\<close> is the three layers. With complete bearer or basic credentials it
  is the layers with \<^verbatim>\<open>Authorization\<close> written last. With complete api-key
  credentials it is the layers with the \<^verbatim>\<open>headerName\<close> header written last, when that
  name is not \<^verbatim>\<open>__proto__\<close> or the layers already hold it.
\<close>

lemma buildHeaders_layers_then_auth:
  "(Option.bind (auth config) (deref heap) = None
      \<longrightarrow> buildHeaders heap config custom = layeredHeaders (headers config) custom)
 \<and> (Option.bind (auth config) (deref heap) = Some obj \<and> credentials obj = None
      \<longrightarrow> buildHeaders heap config custom = layeredHeaders (headers config) custom)
 \<and> (Option.bind (auth config) (deref heap) = Some obj \<and> credentials obj = Some creds
       \<and> type obj = NoAuth
      \<longrightarrow> buildHeaders heap config custom = layeredHeaders (headers config) custom)
 \<and> (Option.bind (auth config) (deref heap) = Some obj \<and> credentials obj = Some creds
       \<and> type obj = Bearer \<and> token creds = Some t \<and> t \<noteq> []
      \<longrightarrow> buildHeaders heap config custom
            = (layeredHeaders (headers config) custom)(''Authorization'' \<mapsto> ''Bearer '' @ t))
 \<and> (Option.bind (auth config) (deref heap) = Some obj \<and> credentials obj = Some creds
       \<and> type obj = ApiKey \<and> apiKey creds = Some k \<and> k \<noteq> []
       \<and> headerName creds = Some hn \<and> hn \<noteq> []
       \<and> (hn \<noteq> ''__proto__'' \<or> layeredHeaders (headers config) custom hn \<noteq> None)
      \<longrightarrow> buildHeaders heap config custom = (layeredHeaders (headers config) custom)(hn \<mapsto> k))
 \<and> (Option.bind (auth config) (deref heap) = Some obj \<and> credentials obj = Some creds
       \<and> type obj = Basic \<and> username creds = Some u \<and> u \<noteq> []
       \<and> password creds = Some p \<and> p \<noteq> []
      \<longrightarrow> buildHeaders heap config custom
            = (layeredHeaders (headers config) custom)
                (''Authorization'' \<mapsto> ''Basic '' @ base64 (u @ '':'' @ p)))"
proof -
  have written: "assignProperty hdrs ''Authorization'' v = hdrs(''Authorization'' \<mapsto> v)"
    for hdrs v
    by (rule assignProperty_written) simp
  have key: "hn \<noteq> ''__proto__'' \<or> layeredHeaders (headers config) custom hn \<noteq> None
      \<longrightarrow> assignProperty (layeredHeaders (headers config) custom) hn k
          = (layeredHeaders (headers config) custom)(hn \<mapsto> k)"
    using assignProperty_written [of hn "layeredHeaders (headers config) custom" k] by blast
  show ?thesis
    using key by (simp add: buildHeaders_def Let_def written)
qed

lemma buildHeaders_examples:
  "buildHeaders [bearerAuth] headerConfig callHeaders ''Authorization'' = Some ''Bearer ghp_secret''
   \<and> buildHeaders [apiKeyAuth] headerConfig callHeaders ''X-API-Key'' = Some ''k-123''
   \<and> buildHeaders [basicAuth] headerConfig callHeaders ''Authorization''
       = Some ''Basic dXNlcjpwYXNz''
   \<and> buildHeaders [bearerAuth] headerConfig callHeaders ''Accept'' = Some ''application/xml''"
  using base64_user_pass
  by (simp add: buildHeaders_def assignProperty_def headerConfig_def callHeaders_def
        bearerAuth_def apiKeyAuth_def basicAuth_def noCredentials_def deref_def spread_def Let_def)

text \<open>
  C7 at an api-key configuration whose \<^verbatim>\<open>headerName\<close> is \<^verbatim>\<open>__proto__\<close>: the default
  and per-call headers do not hold that name, the assignment
  \<^verbatim>\<open>headers[credentials.headerName] = credentials.apiKey\<close> creates no property, and
  \<^verbatim>\<open>buildHeaders\<close> returns the three layers with no header for the key.
  \<^verbatim>\<open>save_api\<close> accepts and stores such a configuration, and \<^verbatim>\<open>buildHeaders\<close> on the
  stored one sends no header of that name either.
\<close>

theorem buildHeaders_drops_proto_api_key:
  "layeredHeaders (headers headerConfig) callHeaders ''__proto__'' = None
   \<and> buildHeaders [protoKeyAuth] headerConfig callHeaders ''__proto__'' = None
   \<and> buildHeaders [protoKeyAuth] headerConfig callHeaders
       = layeredHeaders (headers headerConfig) callHeaders
   \<and> map_option (\<lambda>config. headerName_of (authObjects afterSaveProto) config)
        (getApiConfig afterSaveProto ''svc'')
       = Some (Some ''__proto__'')
   \<and> map_option (\<lambda>config. buildHeaders (authObjects afterSaveProto) config None ''__proto__'')
        (getApiConfig afterSaveProto ''svc'')
       = Some None"
  by (simp add: buildHeaders_def assignProperty_def headerName_of_def afterSaveProto_def
        op_defs example_defs headerConfig_def callHeaders_def spread_def Let_def)


section \<open>Calls that end without a response\<close>

text \<open>
  C4, as the code has it. When the outbound call is rejected, the state after
  \<^verbatim>\<open>make_request\<close> is the state before it (store, auth objects and ledger, hence
  \<^verbatim>\<open>lastUsed\<close> too); for a stored configuration an \<^verbatim>\<open>AbortError\<close> is reported as
  a timeout with the elapsed time, and any other rejection as a failure with the error's
  message.
\<close>

theorem make_request_rejected_leaves_state:
  "snd (make_request jsonSyntaxError startTime endTime now (Rejected errName errMessage)
          st apiNm endpt meth) = st
   \<and> (getApiConfig st apiNm \<noteq> None \<and> errName = ''AbortError''
        \<longrightarrow> fst (make_request jsonSyntaxError startTime endTime now
                    (Rejected errName errMessage) st apiNm endpt meth)
            = RequestTimeout (endTime - startTime))
   \<and> (getApiConfig st apiNm \<noteq> None \<and> errName \<noteq> ''AbortError''
        \<longrightarrow> fst (make_request jsonSyntaxError startTime endTime now
                    (Rejected errName errMessage) st apiNm endpt meth)
            = RequestFailed errMessage)"
  by (auto simp: make_request_def requestError_def split: option.splits)

theorem make_request_rejected_leaves_state_witness:
  "getApiConfig afterSaveJp ''jp'' \<noteq> None
   \<and> make_request exampleJsonSyntaxError 1000 31000 ''2024-01-01T00:00:31.000Z''
        (Rejected ''AbortError'' ''This operation was aborted'') afterSaveJp ''jp'' ''/posts/1'' ''GET''
       = (RequestTimeout 30000, afterSaveJp)
   \<and> make_request exampleJsonSyntaxError 1000 1250 ''2024-01-01T00:00:01.000Z''
        (Rejected ''TypeError'' ''fetch failed'') afterSaveJp ''jp'' ''/posts/1'' ''GET''
       = (RequestFailed ''fetch failed'', afterSaveJp)"
proof -
  have cfg: "getApiConfig afterSaveJp ''jp'' \<noteq> None"
    by (simp add: afterSaveJp_eq getApiConfig_def)
  show ?thesis
    using cfg
      make_request_rejected_leaves_state [where st = afterSaveJp and apiNm = "''jp''"
        and errName = "''AbortError''" and errMessage = "''This operation was aborted''"
        and jsonSyntaxError = exampleJsonSyntaxError and startTime = 1000 and endTime = 31000
        and now = "''2024-01-01T00:00:31.000Z''" and endpt = "''/posts/1''" and meth = "''GET''"]
      make_request_rejected_leaves_state [where st = afterSaveJp and apiNm = "''jp''"
        and errName = "''TypeError''" and errMessage = "''fetch failed''"
        and jsonSyntaxError = exampleJsonSyntaxError and startTime = 1000 and endTime = 1250
        and now = "''2024-01-01T00:00:01.000Z''" and endpt = "''/posts/1''" and meth = "''GET''"]
    by (simp add: prod_eq_iff)
qed

text \<open>
  C4 as stated also lets a transport failure report the elapsed time. It does not: the
  result for a rejected call that took 250 ms is the result for one that took 8999 ms.
\<close>

theorem transport_failure_without_elapsed_counterexample:
  "getApiConfig afterSaveJp ''jp'' \<noteq> None
   \<and> elapsedReported
        (fst (make_request exampleJsonSyntaxError 1000 1250 ''2024-01-01T00:00:01.000Z''
               (Rejected ''TypeError'' ''fetch failed'') afterSaveJp ''jp'' ''/posts/1'' ''GET''))
     = None
   \<and> fst (make_request exampleJsonSyntaxError 1000 1250 ''2024-01-01T00:00:01.000Z''
          (Rejected ''TypeError'' ''fetch failed'') afterSaveJp ''jp'' ''/posts/1'' ''GET'')
     = RequestFailed ''fetch failed''
   \<and> fst (make_request exampleJsonSyntaxError 1000 9999 ''2024-01-01T00:00:09.999Z''
          (Rejected ''TypeError'' ''fetch failed'') afterSaveJp ''jp'' ''/posts/1'' ''GET'')
     = RequestFailed ''fetch failed''"
  by (simp add: make_request_def requestError_def afterSaveJp_eq getApiConfig_def)


section \<open>Validation of credentials on save\<close>

lemma save_api_auth_error:
  assumes "map_of (apiConfigs st) nm = None" "validateUrl urlParses rawUrl"
    "authRequirement authArg = Some e"
  shows "save_api urlParses now st nm rawUrl descr authArg hdrs tmo = (Inl e, st)"
  using assms by (simp add: save_api_def)

lemma save_api_accepts:
  assumes "map_of (apiConfigs st) nm = None" "validateUrl urlParses rawUrl"
    "authRequirement authArg = None"
  shows "\<exists>out st'. save_api urlParses now st nm rawUrl descr authArg hdrs tmo = (Inr out, st')
           \<and> getApiConfig st' nm \<noteq> None"
  using assms
  by (simp add: save_api_def Let_def getApiConfig_def update_conv' split: prod.splits)

text \<open>Every failure of \<^verbatim>\<open>save_api\<close> leaves the state as it was.\<close>

lemma save_api_failure_keeps_state:
  assumes "fst (save_api urlParses now st nm rawUrl descr authArg hdrs tmo) = Inl e"
  shows "snd (save_api urlParses now st nm rawUrl descr authArg hdrs tmo) = st"
  using assms
  by (auto simp: save_api_def Let_def split: if_splits option.splits prod.splits)

text \<open>
  With a \<^verbatim>\<open>credentials\<close> object that lacks a required field of the variant,
  \<^verbatim>\<open>save_api\<close> fails whatever the name and the URL are, and stores nothing; for a name
  that is not stored yet and a valid URL the error is the incomplete-auth error of the
  variant.
\<close>

lemma save_api_rejects_incomplete_credentials:
  assumes "credentials a = Some creds"
    and "(type a = Bearer \<and> \<not> truthy (token creds))
       \<or> (type a = ApiKey \<and> (\<not> truthy (apiKey creds) \<or> \<not> truthy (headerName creds)))
       \<or> (type a = Basic \<and> (\<not> truthy (username creds) \<or> \<not> truthy (password creds)))"
  shows "(\<exists>e. save_api urlParses now st nm rawUrl descr (Some a) hdrs tmo = (Inl e, st))
       \<and> (map_of (apiConfigs st) nm = None \<and> validateUrl urlParses rawUrl
            \<longrightarrow> save_api urlParses now st nm rawUrl descr (Some a) hdrs tmo
                = (Inl (IncompleteAuth (type a)), st))"
proof -
  have "authRequirement (Some a) = Some (IncompleteAuth (type a))"
    using assms by (auto simp: authRequirement_def)
  then show ?thesis
    by (simp add: save_api_def)
qed

text \<open>The type \<^verbatim>\<open>none\<close> requires nothing, with or without a \<^verbatim>\<open>credentials\<close> object.\<close>

lemma save_api_none_requires_nothing:
  assumes "map_of (apiConfigs st) nm = None" and "validateUrl urlParses rawUrl"
    and "type a = NoAuth"
  shows "\<exists>out st'. save_api urlParses now st nm rawUrl descr (Some a) hdrs tmo = (Inr out, st')
           \<and> getApiConfig st' nm \<noteq> None"
proof -
  have "authRequirement (Some a) = None"
    using assms(3) by (simp add: authRequirement_def)
  with assms(1,2) show ?thesis by (rule save_api_accepts)
qed

text \<open>
  C3 at a bearer auth without a \<^verbatim>\<open>credentials\<close> object, on an empty store. The
  validation of \<^verbatim>\<open>save_api\<close> is skipped when \<^verbatim>\<open>auth.credentials\<close> is undefined: the
  call does not fail, the configuration is stored, and \<^verbatim>\<open>buildHeaders\<close> sends no
  \<^verbatim>\<open>Authorization\<close> header for it. The same call with the empty credentials object
  \<^verbatim>\<open>{}\<close> fails with \<^verbatim>\<open>Bearer authentication requires a token\<close>.
\<close>

theorem save_api_accepts_bearer_without_credentials:
  "fst (save_api exampleUrlParses ''2024-01-01T00:00:00.000Z'' initialState ''github''
          ''https://api.github.com'' None (Some \<lparr>type = Bearer, credentials = None\<rparr>) None None)
     \<noteq> Inl (IncompleteAuth Bearer)
   \<and> getApiConfig
        (snd (save_api exampleUrlParses ''2024-01-01T00:00:00.000Z'' initialState ''github''
                ''https://api.github.com'' None (Some \<lparr>type = Bearer, credentials = None\<rparr>)
                None None))
        ''github''
     = Some \<lparr>name = ''github'', baseUrl = ''https://api.github.com'', description = None,
             auth = Some 0, headers = None, timeout = Some 30000,
             createdAt = ''2024-01-01T00:00:00.000Z'', lastUsed = None\<rparr>
   \<and> authObjects
        (snd (save_api exampleUrlParses ''2024-01-01T00:00:00.000Z'' initialState ''github''
                ''https://api.github.com'' None (Some \<lparr>type = Bearer, credentials = None\<rparr>)
                None None))
     = [\<lparr>type = Bearer, credentials = None\<rparr>]
   \<and> buildHeaders [\<lparr>type = Bearer, credentials = None\<rparr>]
        \<lparr>name = ''github'', baseUrl = ''https://api.github.com'', description = None,
         auth = Some 0, headers = None, timeout = Some 30000,
         createdAt = ''2024-01-01T00:00:00.000Z'', lastUsed = None\<rparr> None ''Authorization''
     = None
   \<and> save_api exampleUrlParses ''2024-01-01T00:00:00.000Z'' initialState ''github''
        ''https://api.github.com'' None
        (Some \<lparr>type = Bearer, credentials = Some noCredentials\<rparr>) None None
     = (Inl (IncompleteAuth Bearer), initialState)"
  by (simp add: op_defs example_defs buildHeaders_def spread_def Let_def)


section \<open>The stored base URL\<close>

lemma stripTrailingSlash_snoc:
  "stripTrailingSlash (w @ [c]) = (if c = CHR ''/'' then w else w @ [c])"
  by (simp add: stripTrailingSlash_def)

lemma endsWith_one: "endsWith (w @ [c]) [x] = (c = x)"
  by (simp add: endsWith_def)

lemma endsWith_two: "endsWith (v @ [d, c]) [x, y] = (d = x \<and> c = y)"
  by (simp add: endsWith_def)

lemma endsWith_empty: "\<not> endsWith [] [x]"
  by (simp add: endsWith_def)

lemma stripTrailingSlash_cases:
  "(endsWith rawUrl ''/'' \<longrightarrow> stripTrailingSlash rawUrl = butlast rawUrl)
   \<and> (\<not> endsWith rawUrl ''/'' \<longrightarrow> stripTrailingSlash rawUrl = rawUrl)"
proof (cases rawUrl rule: rev_cases)
  case Nil
  then show ?thesis by (simp add: endsWith_def stripTrailingSlash_def)
next
  case (snoc w c)
  then show ?thesis by (simp add: endsWith_one stripTrailingSlash_snoc)
qed

lemma stripTrailingSlash_clean:
  assumes "\<not> endsWith rawUrl ''//''"
  shows "\<not> endsWith (stripTrailingSlash rawUrl) ''/''"
proof (cases rawUrl rule: rev_cases)
  case Nil
  then show ?thesis by (simp add: endsWith_empty stripTrailingSlash_def)
next
  case outer: (snoc w c)
  show ?thesis
  proof (cases "c = CHR ''/''")
    case False
    with outer show ?thesis by (simp add: endsWith_one stripTrailingSlash_snoc)
  next
    case slash: True
    with outer have stripped: "stripTrailingSlash rawUrl = w"
      by (simp add: stripTrailingSlash_snoc)
    have "\<not> endsWith w ''/''"
    proof (cases w rule: rev_cases)
      case Nil
      then show ?thesis by (simp add: endsWith_empty)
    next
      case (snoc v d)
      with outer slash have "rawUrl = v @ [d, CHR ''/'']" by simp
      with assms have "d \<noteq> CHR ''/''" by (simp add: endsWith_two)
      with snoc show ?thesis by (simp add: endsWith_one)
    qed
    with stripped show ?thesis by simp
  qed
qed

text \<open>
  C8, as the code has it. After an accepted \<^verbatim>\<open>save_api\<close> the stored \<^verbatim>\<open>baseUrl\<close> (and
  the one in the response) is the argument with one final slash removed, if it had one;
  it has no trailing slash whenever the argument does not end in two slashes.
\<close>

theorem save_api_strips_one_slash:
  assumes "save_api urlParses now st nm rawUrl descr authArg hdrs tmo = (Inr out, st')"
  shows "map_option baseUrl (getApiConfig st' nm) = Some (stripTrailingSlash rawUrl)
       \<and> baseUrl out = stripTrailingSlash rawUrl
       \<and> (endsWith rawUrl ''/'' \<longrightarrow> stripTrailingSlash rawUrl = butlast rawUrl)
       \<and> (\<not> endsWith rawUrl ''/'' \<longrightarrow> stripTrailingSlash rawUrl = rawUrl)
       \<and> (\<not> endsWith rawUrl ''//'' \<longrightarrow> \<not> endsWith (stripTrailingSlash rawUrl) ''/'')"
proof -
  have stored: "map_option baseUrl (getApiConfig st' nm) = Some (stripTrailingSlash rawUrl)
       \<and> baseUrl out = stripTrailingSlash rawUrl"
    using assms
    by (auto simp: save_api_def Let_def getApiConfig_def update_conv' sanitizeConfig_def
          stringify_def split: if_splits option.splits prod.splits)
  then show ?thesis
    using stripTrailingSlash_cases [of rawUrl] stripTrailingSlash_clean [of rawUrl] by blast
qed

theorem save_api_strips_one_slash_witness:
  "map_option baseUrl
     (getApiConfig
        (snd (save_api exampleUrlParses ''2024-01-01T00:00:00.000Z'' initialState ''ex''
               ''https://api.example.com/'' None None None None)) ''ex'')
     = Some ''https://api.example.com''
   \<and> endsWith ''https://api.example.com/'' ''/''
   \<and> \<not> endsWith ''https://api.example.com/'' ''//''
   \<and> \<not> endsWith ''https://api.example.com'' ''/''"
proof -
  have "\<exists>out st'. save_api exampleUrlParses ''2024-01-01T00:00:00.000Z'' initialState ''ex''
               ''https://api.example.com/'' None None None None = (Inr out, st')"
    by (simp add: op_defs example_defs Let_def)
  then obtain out st' where run:
    "save_api exampleUrlParses ''2024-01-01T00:00:00.000Z'' initialState ''ex''
               ''https://api.example.com/'' None None None None = (Inr out, st')"
    by blast
  have slash: "endsWith ''https://api.example.com/'' ''/''"
    and single: "\<not> endsWith ''https://api.example.com/'' ''//''"
    by (simp_all add: endsWith_def)
  have "stripTrailingSlash ''https://api.example.com/'' = ''https://api.example.com''"
    by (simp add: stripTrailingSlash_def)
  with save_api_strips_one_slash [OF run] run slash single show ?thesis
    by simp
qed

text \<open>
  C8 as stated includes arguments that end in more than one slash. Of two final slashes
  one is stored.
\<close>

theorem save_api_double_slash_counterexample:
  "validateUrl exampleUrlParses ''https://api.example.com//''
   \<and> map_option baseUrl
       (getApiConfig
          (snd (save_api exampleUrlParses ''2024-01-01T00:00:00.000Z'' initialState ''ex''
                 ''https://api.example.com//'' None None None None)) ''ex'')
       = Some ''https://api.example.com/''
   \<and> endsWith ''https://api.example.com/'' ''/''"
  by (simp add: op_defs example_defs endsWith_def Let_def)


section \<open>Secrets in the store after a save\<close>

text \<open>
  What \<^verbatim>\<open>sanitizeConfig\<close> returns for printing shows no token, key or password, and
  keeps \<^verbatim>\<open>username\<close> and \<^verbatim>\<open>headerName\<close>.
\<close>

lemma sanitizeConfig_redacts_rendering:
  assumes "sanitizeConfig heap config = (sanitized, heap')"
    and "auth (stringify heap' sanitized) = Some obj" and "credentials obj = Some creds"
  shows "token creds \<in> {None, Some ''[REDACTED]''}
       \<and> apiKey creds \<in> {None, Some ''[REDACTED]''}
       \<and> password creds \<in> {None, Some ''[REDACTED]''}"
  using assms
  by (auto simp: sanitizeConfig_def stringify_def deref_def redactedCredentials_def redact_def
        split: option.splits if_splits)

lemma sanitizeConfig_keeps_names:
  assumes "Option.bind (auth config) (deref heap) = Some obj" and "credentials obj = Some creds"
    and "sanitizeConfig heap config = (sanitized, heap')"
  shows "\<exists>obj' creds'. auth (stringify heap' sanitized) = Some obj'
           \<and> credentials obj' = Some creds'
           \<and> username creds' = username creds \<and> headerName creds' = headerName creds"
  using assms
  by (auto simp: sanitizeConfig_def stringify_def deref_def redactedCredentials_def
        split: option.splits if_splits Option.bind_splits)

text \<open>
  C1 at a configuration with a bearer token. The response of \<^verbatim>\<open>save_api\<close> shows the
  token redacted, as the claim says; but \<^verbatim>\<open>sanitizeConfig\<close> wrote the redacted
  credentials into the auth object that the stored configuration refers to, so the
  stored token is the redaction marker and \<^verbatim>\<open>buildHeaders\<close> sends it.
\<close>

theorem save_api_overwrites_stored_token:
  "fst (save_api exampleUrlParses ''2024-01-01T00:00:00.000Z'' initialState ''github''
          ''https://api.github.com'' (Some ''GitHub REST API v3'') (Some bearerAuth) None None)
     = Inr \<lparr>name = ''github'', baseUrl = ''https://api.github.com'',
             description = Some ''GitHub REST API v3'',
             auth = Some \<lparr>type = Bearer,
                           credentials = Some (noCredentials\<lparr>token := Some ''[REDACTED]''\<rparr>)\<rparr>,
             headers = None, timeout = Some 30000,
             createdAt = ''2024-01-01T00:00:00.000Z'', lastUsed = None\<rparr>
   \<and> Option.bind (Option.bind (getApiConfig afterSaveGithub ''github'') auth)
        (deref (authObjects afterSaveGithub))
     = Some \<lparr>type = Bearer, credentials = Some (noCredentials\<lparr>token := Some ''[REDACTED]''\<rparr>)\<rparr>
   \<and> map_option (\<lambda>config. buildHeaders (authObjects afterSaveGithub) config None ''Authorization'')
        (getApiConfig afterSaveGithub ''github'')
     = Some (Some ''Bearer [REDACTED]'')"
  by (simp add: afterSaveGithub_eq op_defs example_defs buildHeaders_def assignProperty_def
        spread_def Let_def)


section \<open>Fetching an endpoint that search returned\<close>

lemma sanitizeEndpoint_no_slash: "CHR ''/'' \<notin> set (sanitizeEndpoint e)"
  by (auto simp: sanitizeEndpoint_def isAlnum_def lowerLetters_def upperLetters_def digits_def)

lemma fetch_comparison_needs_alnum:
  assumes "sanitizeEndpoint e = underscoresToSlashes s"
  shows "list_all isAlnum e"
proof -
  have "CHR ''_'' \<notin> set (underscoresToSlashes s)"
    by (auto simp: underscoresToSlashes_def)
  with assms have "CHR ''_'' \<notin> set (sanitizeEndpoint e)" by simp
  then show ?thesis
    by (auto simp: sanitizeEndpoint_def list_all_iff split: if_splits)
qed

text \<open>An endpoint document is only ever returned for an endpoint of letters and digits.\<close>

lemma fetch_endpoint_document_alnum:
  assumes "fetch st ident = Inr (EndpointDoc d)"
  shows "list_all isAlnum (endpointDocEndpoint d)"
proof -
  from assms obtain apiNm rest config firstRequest others where
    hist: "filter (\<lambda>r. apiName r = apiNm
              \<and> sanitizeEndpoint (endpoint r) = underscoresToSlashes (join ''-'' rest))
            (requestHistory st) = firstRequest # others"
    and doc: "d = endpointDocument st ident apiNm config firstRequest (firstRequest # others)"
    by (auto simp: fetch_def Let_def split: if_splits list.splits option.splits)
  from hist have "firstRequest \<in> set (filter (\<lambda>r. apiName r = apiNm
              \<and> sanitizeEndpoint (endpoint r) = underscoresToSlashes (join ''-'' rest))
            (requestHistory st))"
    by simp
  then have "sanitizeEndpoint (endpoint firstRequest) = underscoresToSlashes (join ''-'' rest)"
    by simp
  then have "list_all isAlnum (endpoint firstRequest)"
    by (rule fetch_comparison_needs_alnum)
  with doc show ?thesis by (simp add: endpointDocument_def)
qed

text \<open>
  C2 at the example of the specification. \<^verbatim>\<open>search\<close> returns the identifier
  \<^verbatim>\<open>endpoint-jp-_posts_1\<close> for the recorded call of \<^verbatim>\<open>/posts/1\<close>; \<^verbatim>\<open>fetch\<close> of that
  identifier, with the configuration stored and the record in the ledger, ends in the
  not-found error: it turns the underscores of the identifier into slashes and compares
  the result with the sanitized endpoint, which has none
  (\<open>fetch_comparison_needs_alnum\<close>).
\<close>

theorem fetch_rejects_searched_endpoint_id:
  "map resultId (search afterGetPost ''posts'') = [''api-jp'', ''endpoint-jp-_posts_1'']
   \<and> getApiConfig afterGetPost ''jp'' \<noteq> None
   \<and> map (\<lambda>r. (apiName r, endpoint r)) (requestHistory afterGetPost) = [(''jp'', ''/posts/1'')]
   \<and> fetch afterGetPost ''endpoint-jp-_posts_1''
       = Inl (DocumentNotFound ''endpoint-jp-_posts_1'')"
  by (simp add: afterGetPost_eq search_defs fetch_def getApiConfig_def underscoresToSlashes_def Let_def)


section \<open>Calls that complete with a response\<close>

text \<open>
  When the body of the response is parsed, \<^verbatim>\<open>make_request\<close> sets \<^verbatim>\<open>lastUsed\<close> to the
  completion time and appends one record whose \<^verbatim>\<open>success\<close> is true exactly for a
  status from 200 to 299.
\<close>

lemma make_request_completed:
  assumes "getApiConfig st apiNm = Some config"
    and "parseResponse jsonSyntaxError response = Inr responseBody"
  shows "make_request jsonSyntaxError startTime endTime now (Resolved response) st apiNm endpt meth
     = (RequestOk (responseStatus response) (statusText response) (responseHeaders response)
          responseBody (endTime - startTime),
        st\<lparr>apiConfigs := AList.update apiNm (config\<lparr>lastUsed := Some now\<rparr>) (apiConfigs st),
           requestHistory := addRequestToHistory (requestHistory st)
             \<lparr>timestamp = now, apiName = apiNm, httpMethod = meth, endpoint = endpt,
              status = responseStatus response, responseTime = endTime - startTime,
              success = (200 \<le> responseStatus response \<and> responseStatus response \<le> 299)\<rparr>\<rparr>)"
  using assms by (simp add: make_request_def Let_def ok_def)

text \<open>
  C6 at a response that declares JSON and has an empty body. \<^verbatim>\<open>response.json()\<close>
  throws inside \<^verbatim>\<open>parseResponse\<close>, before the statistics are updated: the call is
  reported as failed, no record is appended and \<^verbatim>\<open>lastUsed\<close> stays unset, although a
  response with a status arrived before the deadline.
\<close>

theorem make_request_unparsed_json_not_recorded:
  "getApiConfig afterSaveJp ''jp'' \<noteq> None
   \<and> make_request exampleJsonSyntaxError 1000 1250 ''2024-01-01T00:00:01.000Z''
        (Resolved noContentResponse) afterSaveJp ''jp'' ''/posts/1'' ''DELETE''
     = (RequestFailed ''Unexpected end of JSON input'', afterSaveJp)"
  by (simp add: afterSaveJp_eq make_request_def getApiConfig_def parseResponse_def orElse_def
        startsWith_def requestError_def example_defs)

end
